theory Spec2Isabelle
  imports Complex_Main
begin

section \<open>Company Operations API: a shallow embedding of main.py and schemas.py\<close>

text \<open>
  The handlers of \<^verbatim>\<open>main.py\<close> are embedded as functions over an explicit document store.
  A handler that raises returns \<open>Inl\<close> of the exception; a handler that writes returns
  the new store next to its result.

  Strings are lists of 8-bit characters (the Authorization header reaches the handlers
  decoded as Latin-1). Request models (\<^verbatim>\<open>RegisterRequest\<close>, \<^verbatim>\<open>LoginRequest\<close>, ...) are
  records: a handler only ever runs on a body that has passed the request model, so a
  value of type \<^verbatim>\<open>EmailStr\<close> is a string that has already been validated and
  normalised, and a \<^verbatim>\<open>Literal\<close> is a datatype. A \<^verbatim>\<open>float\<close> is a real number (finite values
  only; no claim depends on rounding).
\<close>

subsection \<open>Python string operations used by the handlers\<close>

text \<open>\<^verbatim>\<open>str.isspace\<close> on one character, for the code points below 256.\<close>

definition isspace :: "char \<Rightarrow> bool" where
  "isspace c = ((of_char c :: nat) \<in> set [9, 10, 11, 12, 13, 28, 29, 30, 31, 32, 133, 160])"

text \<open>\<^verbatim>\<open>str.strip()\<close>: leading and trailing whitespace removed.\<close>

definition strip :: "string \<Rightarrow> string" where
  "strip s = rev (dropWhile isspace (rev (dropWhile isspace s)))"

text \<open>\<^verbatim>\<open>str.lower()\<close>, character by character (A-Z and the Latin-1 capitals).\<close>

definition lower_char :: "char \<Rightarrow> char" where
  "lower_char c =
     (let n = (of_char c :: nat)
      in if 65 \<le> n \<and> n \<le> 90 then char_of (n + 32)
         else if n = 215 then c
         else if 192 \<le> n \<and> n \<le> 222 then char_of (n + 32)
         else c)"

definition lower :: "string \<Rightarrow> string" where
  "lower s = map lower_char s"

text \<open>\<^verbatim>\<open>s.startswith(p)\<close>.\<close>

definition startswith :: "string \<Rightarrow> string \<Rightarrow> bool" where
  "startswith s p = (take (length p) s = p)"

text \<open>
  \<^verbatim>\<open>s.split(sep, 1)\<close> for a one-character separator: one element when the separator
  does not occur, otherwise the text before its first occurrence and the text after it.
\<close>

definition split1 :: "char \<Rightarrow> string \<Rightarrow> string list" where
  "split1 sep s =
     (case dropWhile (\<lambda>c. c \<noteq> sep) s of
        [] \<Rightarrow> [s]
      | _ # rest \<Rightarrow> [takeWhile (\<lambda>c. c \<noteq> sep) s, rest])"

subsection \<open>Exceptions, configuration and the data model\<close>

text \<open>
  \<^verbatim>\<open>HTTPException(status_code, detail)\<close> is what the handlers raise on purpose. The other
  constructors are exceptions that escape a handler uncaught: pydantic's
  \<^verbatim>\<open>ValidationError\<close> from a schema constructor, \<^verbatim>\<open>ValueError\<close> from
  \<^verbatim>\<open>datetime.fromisoformat\<close>, \<^verbatim>\<open>InvalidId\<close> from \<^verbatim>\<open>ObjectId\<close>, and \<^verbatim>\<open>IndexError\<close> from
  a list index.
\<close>

datatype error =
    HTTPException nat string
  | ValidationError
  | ValueError
  | InvalidId
  | IndexError

text \<open>
  The status line a caller sees. \<^verbatim>\<open>main.py\<close> installs no exception handler, so the
  framework answers an \<^verbatim>\<open>HTTPException\<close> with its own status code and every other
  exception with 500; a handler that returns answers 200.
\<close>

fun response_status :: "error + 'a \<Rightarrow> nat" where
  "response_status (Inl (HTTPException code detail)) = code"
| "response_status (Inl _) = 500"
| "response_status (Inr _) = 200"

text \<open>
  What the module takes from its environment: \<^verbatim>\<open>SECRET\<close> (read from \<^verbatim>\<open>APP_SECRET\<close> at
  import), and the library functions \<^verbatim>\<open>sha256(s.encode()).hexdigest()\<close>,
  \<^verbatim>\<open>ObjectId(s)\<close> (\<open>None\<close> when it raises \<^verbatim>\<open>InvalidId\<close>), \<^verbatim>\<open>str(ObjectId)\<close> and
  \<^verbatim>\<open>datetime.fromisoformat(s).date()\<close> (\<open>None\<close> when it raises \<^verbatim>\<open>ValueError\<close>).
  Object ids are natural numbers, dates and timestamps too.
\<close>

record env =
  SECRET :: string
  sha256_hexdigest :: "string \<Rightarrow> string"
  ObjectId :: "string \<Rightarrow> nat option"
  oid_str :: "nat \<Rightarrow> string"
  fromisoformat_date :: "string \<Rightarrow> nat option"

datatype role = Employee | Core

datatype task_status = Pending | In_progress | Done

datatype salary_status = SalaryPending | Paid

datatype finance_kind = Revenue | Expense

text \<open>The schemas of \<^verbatim>\<open>schemas.py\<close>: the fields of one document of each collection.\<close>

record User =
  u_name :: string
  u_email :: string
  u_role :: role
  u_password_hash :: string
  u_is_active :: bool

record Task =
  t_title :: string
  t_description :: "string option"
  t_assignee_email :: string
  t_status :: task_status
  t_due_date :: "string option"
  t_updated_at :: "nat option"

record Report =
  r_employee_email :: string
  r_report_date :: nat
  r_summary :: string
  r_hours_worked :: real

record SalaryPayment =
  s_employee_email :: string
  s_amount :: real
  s_month :: string
  s_notes :: "string option"
  s_status :: salary_status

record FinanceRecord =
  f_kind :: finance_kind
  f_amount :: real
  f_category :: string
  f_description :: "string option"
  f_reference :: "string option"

text \<open>
  The field constraints of the schemas: constructing \<^verbatim>\<open>Report\<close>, \<^verbatim>\<open>SalaryPayment\<close> or
  \<^verbatim>\<open>FinanceRecord\<close> raises \<^verbatim>\<open>ValidationError\<close> when a constraint (\<^verbatim>\<open>ge\<close>, \<^verbatim>\<open>le\<close>) fails.
  \<^verbatim>\<open>User\<close> and \<^verbatim>\<open>Task\<close> constrain nothing beyond the field types.
\<close>

definition Report_init :: "Report \<Rightarrow> error + Report" where
  "Report_init r =
     (if 0 \<le> r_hours_worked r \<and> r_hours_worked r \<le> 24 then Inr r else Inl ValidationError)"

definition SalaryPayment_init :: "SalaryPayment \<Rightarrow> error + SalaryPayment" where
  "SalaryPayment_init s = (if 0 \<le> s_amount s then Inr s else Inl ValidationError)"

definition FinanceRecord_init :: "FinanceRecord \<Rightarrow> error + FinanceRecord" where
  "FinanceRecord_init f = (if 0 \<le> f_amount f then Inr f else Inl ValidationError)"

subsection \<open>The document store\<close>

text \<open>
  A collection is the list of its documents in insertion order, each with its \<^verbatim>\<open>_id\<close>.
\<close>

type_synonym 'a collection = "(nat \<times> 'a) list"

record store =
  user :: "User collection"
  task :: "Task collection"
  report :: "Report collection"
  salarypayment :: "SalaryPayment collection"
  financerecord :: "FinanceRecord collection"

text \<open>
  Modelled from the spec: the module \<^verbatim>\<open>database\<close> (\<^verbatim>\<open>db\<close>, \<^verbatim>\<open>create_document\<close>,
  \<^verbatim>\<open>get_documents\<close>) is not part of the sources. The spec describes it as a document
  store with create, read and update operations keyed by document id, where a created
  record is persisted under a newly assigned id and can be fetched again by that id.
  \<open>new_oid\<close> is an id that no document of the collection has; \<open>create_document\<close> appends
  the document under it and returns the id as a string; \<open>get_documents\<close> returns the
  documents matching a filter; \<open>find_one\<close>, \<open>find_one_by_id\<close>, \<open>count_documents\<close> and
  \<open>update_one\<close> are the collection methods the handlers call on \<^verbatim>\<open>db[...]\<close>.
\<close>

definition new_oid :: "'a collection \<Rightarrow> nat" where
  "new_oid c = Suc (fold max (map fst c) 0)"

definition create_document :: "env \<Rightarrow> 'a collection \<Rightarrow> 'a \<Rightarrow> string \<times> 'a collection" where
  "create_document E c d = (oid_str E (new_oid c), c @ [(new_oid c, d)])"

definition get_documents :: "'a collection \<Rightarrow> ('a \<Rightarrow> bool) \<Rightarrow> (nat \<times> 'a) list" where
  "get_documents c q = filter (\<lambda>d. q (snd d)) c"

definition find_one :: "'a collection \<Rightarrow> ('a \<Rightarrow> bool) \<Rightarrow> (nat \<times> 'a) option" where
  "find_one c q = find (\<lambda>d. q (snd d)) c"

definition find_one_by_id :: "'a collection \<Rightarrow> nat \<Rightarrow> (nat \<times> 'a) option" where
  "find_one_by_id c i = find (\<lambda>d. fst d = i) c"

definition count_documents :: "'a collection \<Rightarrow> nat" where
  "count_documents c = length c"

text \<open>\<^verbatim>\<open>update_one({"_id": i}, {"$set": ...})\<close>: the first document with that id is changed.\<close>

fun update_one :: "'a collection \<Rightarrow> nat \<Rightarrow> ('a \<Rightarrow> 'a) \<Rightarrow> 'a collection" where
  "update_one [] i upd = []"
| "update_one (d # c) i upd =
     (if fst d = i then (fst d, upd (snd d)) # c else d # update_one c i upd)"

text \<open>
  \<^verbatim>\<open>serialize_doc\<close> returns a missing document as it is, and otherwise turns the \<^verbatim>\<open>_id\<close>
  into its string and leaves the other fields (a timestamp is rendered by
  \<^verbatim>\<open>isoformat\<close>, which is kept as the timestamp here).
\<close>

definition serialize_doc :: "env \<Rightarrow> (nat \<times> 'a) option \<Rightarrow> (string \<times> 'a) option" where
  "serialize_doc E doc =
     (case doc of None \<Rightarrow> None | Some d \<Rightarrow> Some (oid_str E (fst d), snd d))"

subsection \<open>Authentication\<close>

record AuthUser =
  au_email :: string
  au_role :: role
  au_name :: string

definition hash_password :: "env \<Rightarrow> string \<Rightarrow> string" where
  "hash_password E password = sha256_hexdigest E password"

definition make_token :: "env \<Rightarrow> string \<Rightarrow> string \<Rightarrow> string" where
  "make_token E email password_hash =
     (let raw = email @ '':'' @ password_hash @ '':'' @ SECRET E
      in sha256_hexdigest E raw @ '':'' @ email)"

definition parse_token :: "string \<Rightarrow> (error + string option)" where
  "parse_token token =
     (if token = [] then Inr None
      else if CHR '':'' \<in> set token
      then (case split1 CHR '':'' token of
              [hash, email] \<Rightarrow> Inr (Some email)
            | _ \<Rightarrow> Inl ValueError)
      else Inr None)"

text \<open>The first element of a \<^verbatim>\<open>split(":", 1)\<close>, which always exists.\<close>

definition split1_first :: "char \<Rightarrow> string \<Rightarrow> string" where
  "split1_first sep s = takeWhile (\<lambda>c. c \<noteq> sep) s"

definition get_current_user :: "env \<Rightarrow> store \<Rightarrow> string option \<Rightarrow> error + AuthUser" where
  "get_current_user E st authorization =
     (case authorization of
        None \<Rightarrow> Inl (HTTPException 401 ''Missing or invalid Authorization header'')
      | Some a \<Rightarrow>
          if a = [] then Inl (HTTPException 401 ''Missing or invalid Authorization header'')
          else if \<not> startswith (lower a) ''bearer ''
          then Inl (HTTPException 401 ''Missing or invalid Authorization header'')
          else (case split1 CHR '' '' a of
                  _ # rest # _ \<Rightarrow>
                    (let token = strip rest in
                     case parse_token token of
                       Inl e \<Rightarrow> Inl e
                     | Inr None \<Rightarrow> Inl (HTTPException 401 ''Invalid token'')
                     | Inr (Some email) \<Rightarrow>
                         if email = [] then Inl (HTTPException 401 ''Invalid token'')
                         else (case find_one (user st)
                                      (\<lambda>u. u_email u = email \<and> u_is_active u = True) of
                                 None \<Rightarrow> Inl (HTTPException 401 ''User not found or inactive'')
                               | Some usr \<Rightarrow>
                                   (let expected =
                                          split1_first CHR '':''
                                            (make_token E (u_email (snd usr))
                                               (u_password_hash (snd usr)))
                                    in if split1_first CHR '':'' token \<noteq> expected
                                       then Inl (HTTPException 401 ''Invalid token signature'')
                                       else Inr \<lparr>au_email = u_email (snd usr),
                                                 au_role = u_role (snd usr),
                                                 au_name = u_name (snd usr)\<rparr>)))
                | _ \<Rightarrow> Inl IndexError))"

text \<open>
  \<^verbatim>\<open>Depends(get_current_user)\<close>: the handler runs on the authenticated user, and the
  request ends with the dependency's exception when it raises.
\<close>

definition Depends_get_current_user ::
  "env \<Rightarrow> store \<Rightarrow> string option \<Rightarrow> (AuthUser \<Rightarrow> (error + 'a) \<times> store) \<Rightarrow> (error + 'a) \<times> store" where
  "Depends_get_current_user E st authorization handler =
     (case get_current_user E st authorization of
        Inl e \<Rightarrow> (Inl e, st)
      | Inr current \<Rightarrow> handler current)"

subsection \<open>Registration and login\<close>

text \<open>
  A request model with a default: a field the body omits (\<open>None\<close>) takes the default of
  the class, \<^verbatim>\<open>role: Literal["employee", "core"] = "employee"\<close>.
\<close>

record RegisterRequest =
  rr_name :: string
  rr_email :: string
  rr_password :: string
  rr_role :: role

definition RegisterRequest_init ::
  "string \<Rightarrow> string \<Rightarrow> string \<Rightarrow> role option \<Rightarrow> RegisterRequest" where
  "RegisterRequest_init name email password role_field =
     \<lparr>rr_name = name, rr_email = email, rr_password = password,
      rr_role = (case role_field of None \<Rightarrow> Employee | Some r \<Rightarrow> r)\<rparr>"

record LoginRequest =
  lr_email :: string
  lr_password :: string

record TokenResponse =
  tr_token :: string
  tr_user :: AuthUser

text \<open>
  The dependency of \<^verbatim>\<open>register_user\<close> is \<^verbatim>\<open>Depends(lambda: None)\<close>: it does not look at
  the request.
\<close>

definition register_user_current :: "string option \<Rightarrow> AuthUser option" where
  "register_user_current authorization = None"

definition register_user ::
  "env \<Rightarrow> store \<Rightarrow> RegisterRequest \<Rightarrow> AuthUser option \<Rightarrow> (error + AuthUser) \<times> store" where
  "register_user E st payload current =
     (let users_count = count_documents (user st);
          denied =
            (if users_count > 0 then
               (case current of
                  None \<Rightarrow> Some (HTTPException 401 ''Authentication required'')
                | Some c \<Rightarrow>
                    if au_role c \<noteq> Core
                    then Some (HTTPException 403 ''Only core can create users'')
                    else None)
             else None)
      in case denied of
           Some e \<Rightarrow> (Inl e, st)
         | None \<Rightarrow>
             (case find_one (user st) (\<lambda>u. u_email u = rr_email payload) of
                Some _ \<Rightarrow> (Inl (HTTPException 400 ''Email already registered''), st)
              | None \<Rightarrow>
                  (let doc = \<lparr>u_name = rr_name payload, u_email = rr_email payload,
                              u_role = rr_role payload,
                              u_password_hash = hash_password E (rr_password payload),
                              u_is_active = True\<rparr>;
                       created = create_document E (user st) doc
                   in (Inr \<lparr>au_email = rr_email payload, au_role = rr_role payload,
                            au_name = rr_name payload\<rparr>,
                       st\<lparr>user := snd created\<rparr>))))"

definition POST_auth_register ::
  "env \<Rightarrow> store \<Rightarrow> string option \<Rightarrow> RegisterRequest \<Rightarrow> (error + AuthUser) \<times> store" where
  "POST_auth_register E st authorization payload =
     register_user E st payload (register_user_current authorization)"

definition login :: "env \<Rightarrow> store \<Rightarrow> LoginRequest \<Rightarrow> error + TokenResponse" where
  "login E st payload =
     (case find_one (user st) (\<lambda>u. u_email u = lr_email payload \<and> u_is_active u = True) of
        None \<Rightarrow> Inl (HTTPException 401 ''Invalid credentials'')
      | Some usr \<Rightarrow>
          if u_password_hash (snd usr) \<noteq> hash_password E (lr_password payload)
          then Inl (HTTPException 401 ''Invalid credentials'')
          else Inr \<lparr>tr_token = make_token E (u_email (snd usr)) (u_password_hash (snd usr)),
                    tr_user = \<lparr>au_email = u_email (snd usr), au_role = u_role (snd usr),
                               au_name = u_name (snd usr)\<rparr>\<rparr>)"

subsection \<open>Tasks\<close>

record UpdateTaskRequest =
  ut_status :: "task_status option"
  ut_title :: "string option"
  ut_description :: "string option"

text \<open>
  The filter dictionary \<^verbatim>\<open>q\<close> of the list handlers: empty, or one key with an email.
\<close>

definition task_matches :: "string option \<Rightarrow> Task \<Rightarrow> bool" where
  "task_matches q t = (case q of None \<Rightarrow> True | Some e \<Rightarrow> t_assignee_email t = e)"

definition list_tasks ::
  "env \<Rightarrow> store \<Rightarrow> AuthUser \<Rightarrow> string option \<Rightarrow> (string \<times> Task) option list" where
  "list_tasks E st current assignee =
     (let q = (if au_role current = Employee then Some (au_email current)
               else (case assignee of
                       None \<Rightarrow> None
                     | Some a \<Rightarrow> if a \<noteq> [] then Some a else None));
          docs = get_documents (task st) (task_matches q)
      in map (\<lambda>d. serialize_doc E (Some d)) docs)"

definition GET_tasks ::
  "env \<Rightarrow> store \<Rightarrow> string option \<Rightarrow> string option
     \<Rightarrow> (error + (string \<times> Task) option list) \<times> store" where
  "GET_tasks E st authorization assignee =
     Depends_get_current_user E st authorization
       (\<lambda>current. (Inr (list_tasks E st current assignee), st))"

text \<open>
  \<^verbatim>\<open>{"$set": updates}\<close>, where \<^verbatim>\<open>updates\<close> holds the fields of the payload that are not
  \<^verbatim>\<open>None\<close>, and \<^verbatim>\<open>updated_at\<close>.
\<close>

definition set_updates :: "UpdateTaskRequest \<Rightarrow> nat \<Rightarrow> Task \<Rightarrow> Task" where
  "set_updates updates now t =
     t\<lparr>t_status := (case ut_status updates of None \<Rightarrow> t_status t | Some s \<Rightarrow> s),
       t_title := (case ut_title updates of None \<Rightarrow> t_title t | Some x \<Rightarrow> x),
       t_description :=
         (case ut_description updates of None \<Rightarrow> t_description t | Some x \<Rightarrow> Some x),
       t_updated_at := Some now\<rparr>"

text \<open>\<open>utcnow\<close> is the value \<^verbatim>\<open>datetime.utcnow()\<close> returns during the request.\<close>

definition update_task ::
  "env \<Rightarrow> store \<Rightarrow> nat \<Rightarrow> string \<Rightarrow> UpdateTaskRequest \<Rightarrow> AuthUser
     \<Rightarrow> (error + (string \<times> Task) option) \<times> store" where
  "update_task E st utcnow task_id payload current =
     (case ObjectId E task_id of
        None \<Rightarrow> (Inl (HTTPException 400 ''Invalid task id''), st)
      | Some i \<Rightarrow>
          (case find_one_by_id (task st) i of
             None \<Rightarrow> (Inl (HTTPException 404 ''Task not found''), st)
           | Some doc \<Rightarrow>
               if au_role current = Employee \<and> t_assignee_email (snd doc) \<noteq> au_email current
               then (Inl (HTTPException 403 ''Not allowed''), st)
               else if ut_status payload = None \<and> ut_title payload = None
                         \<and> ut_description payload = None
               then (Inr (serialize_doc E (Some doc)), st)
               else (let st' = st\<lparr>task := update_one (task st) i (set_updates payload utcnow)\<rparr>
                     in (Inr (serialize_doc E (find_one_by_id (task st') i)), st'))))"

definition PATCH_tasks ::
  "env \<Rightarrow> store \<Rightarrow> nat \<Rightarrow> string option \<Rightarrow> string \<Rightarrow> UpdateTaskRequest
     \<Rightarrow> (error + (string \<times> Task) option) \<times> store" where
  "PATCH_tasks E st utcnow authorization task_id payload =
     Depends_get_current_user E st authorization (update_task E st utcnow task_id payload)"

text \<open>
  The tail shared by the create handlers: \<^verbatim>\<open>create_document\<close>, then
  \<^verbatim>\<open>find_one({"_id": ObjectId(inserted_id)})\<close> and \<^verbatim>\<open>serialize_doc\<close>.
\<close>

definition refetch ::
  "env \<Rightarrow> 'a collection \<Rightarrow> string \<Rightarrow> error + (string \<times> 'a) option" where
  "refetch E c inserted_id =
     (case ObjectId E inserted_id of
        None \<Rightarrow> Inl InvalidId
      | Some i \<Rightarrow> Inr (serialize_doc E (find_one_by_id c i)))"

subsection \<open>Reports\<close>

record CreateReportRequest =
  cr_date :: string
  cr_summary :: string
  cr_hours_worked :: real

definition create_report ::
  "env \<Rightarrow> store \<Rightarrow> CreateReportRequest \<Rightarrow> AuthUser
     \<Rightarrow> (error + (string \<times> Report) option) \<times> store" where
  "create_report E st payload current =
     (if au_role current \<noteq> Employee
      then (Inl (HTTPException 403 ''Only employees can submit reports''), st)
      else (case fromisoformat_date E (cr_date payload) of
              None \<Rightarrow> (Inl ValueError, st)
            | Some d \<Rightarrow>
                (case Report_init \<lparr>r_employee_email = au_email current, r_report_date = d,
                                   r_summary = cr_summary payload,
                                   r_hours_worked = cr_hours_worked payload\<rparr> of
                   Inl e \<Rightarrow> (Inl e, st)
                 | Inr data \<Rightarrow>
                     (let created = create_document E (report st) data
                      in (refetch E (snd created) (fst created),
                          st\<lparr>report := snd created\<rparr>)))))"

definition POST_reports ::
  "env \<Rightarrow> store \<Rightarrow> string option \<Rightarrow> CreateReportRequest
     \<Rightarrow> (error + (string \<times> Report) option) \<times> store" where
  "POST_reports E st authorization payload =
     Depends_get_current_user E st authorization (create_report E st payload)"

subsection \<open>Salary\<close>

record CreateSalaryRequest =
  cs_employee_email :: string
  cs_amount :: real
  cs_month :: string
  cs_notes :: "string option"
  cs_status :: salary_status

text \<open>\<^verbatim>\<open>status: Literal["pending", "paid"] = "paid"\<close>: a body without the field gets the default.\<close>

definition CreateSalaryRequest_init ::
  "string \<Rightarrow> real \<Rightarrow> string \<Rightarrow> string option \<Rightarrow> salary_status option \<Rightarrow> CreateSalaryRequest" where
  "CreateSalaryRequest_init employee_email amount month notes status_field =
     \<lparr>cs_employee_email = employee_email, cs_amount = amount, cs_month = month,
      cs_notes = notes,
      cs_status = (case status_field of None \<Rightarrow> Paid | Some s \<Rightarrow> s)\<rparr>"

definition create_salary ::
  "env \<Rightarrow> store \<Rightarrow> CreateSalaryRequest \<Rightarrow> AuthUser
     \<Rightarrow> (error + (string \<times> SalaryPayment) option) \<times> store" where
  "create_salary E st payload current =
     (if au_role current \<noteq> Core
      then (Inl (HTTPException 403 ''Only core can create salary records''), st)
      else (case SalaryPayment_init
                   \<lparr>s_employee_email = cs_employee_email payload, s_amount = cs_amount payload,
                    s_month = cs_month payload, s_notes = cs_notes payload,
                    s_status = cs_status payload\<rparr> of
              Inl e \<Rightarrow> (Inl e, st)
            | Inr data \<Rightarrow>
                (let created = create_document E (salarypayment st) data
                 in (refetch E (snd created) (fst created),
                     st\<lparr>salarypayment := snd created\<rparr>))))"

definition POST_salary ::
  "env \<Rightarrow> store \<Rightarrow> string option \<Rightarrow> CreateSalaryRequest
     \<Rightarrow> (error + (string \<times> SalaryPayment) option) \<times> store" where
  "POST_salary E st authorization payload =
     Depends_get_current_user E st authorization (create_salary E st payload)"

subsection \<open>Finance\<close>

record CreateFinanceRequest =
  cf_kind :: finance_kind
  cf_amount :: real
  cf_category :: string
  cf_description :: "string option"
  cf_reference :: "string option"

definition create_finance ::
  "env \<Rightarrow> store \<Rightarrow> CreateFinanceRequest \<Rightarrow> AuthUser
     \<Rightarrow> (error + (string \<times> FinanceRecord) option) \<times> store" where
  "create_finance E st payload current =
     (if au_role current \<noteq> Core
      then (Inl (HTTPException 403 ''Only core can add finance records''), st)
      else (case FinanceRecord_init
                   \<lparr>f_kind = cf_kind payload, f_amount = cf_amount payload,
                    f_category = cf_category payload, f_description = cf_description payload,
                    f_reference = cf_reference payload\<rparr> of
              Inl e \<Rightarrow> (Inl e, st)
            | Inr data \<Rightarrow>
                (let created = create_document E (financerecord st) data
                 in (refetch E (snd created) (fst created),
                     st\<lparr>financerecord := snd created\<rparr>))))"

definition POST_finance ::
  "env \<Rightarrow> store \<Rightarrow> string option \<Rightarrow> CreateFinanceRequest
     \<Rightarrow> (error + (string \<times> FinanceRecord) option) \<times> store" where
  "POST_finance E st authorization payload =
     Depends_get_current_user E st authorization (create_finance E st payload)"

definition list_finance ::
  "env \<Rightarrow> store \<Rightarrow> AuthUser \<Rightarrow> error + (string \<times> FinanceRecord) option list" where
  "list_finance E st current =
     (if au_role current \<noteq> Core
      then Inl (HTTPException 403 ''Only core can view finance records'')
      else Inr (map (\<lambda>d. serialize_doc E (Some d))
                  (get_documents (financerecord st) (\<lambda>_. True))))"

definition GET_finance ::
  "env \<Rightarrow> store \<Rightarrow> string option
     \<Rightarrow> (error + (string \<times> FinanceRecord) option list) \<times> store" where
  "GET_finance E st authorization =
     Depends_get_current_user E st authorization (\<lambda>current. (list_finance E st current, st))"

subsection \<open>What the proofs assume of the library functions\<close>

text \<open>
  \<^verbatim>\<open>hexdigest()\<close> returns hexadecimal digits only. A value that has passed \<^verbatim>\<open>EmailStr\<close> is
  not empty and holds no whitespace.
\<close>

definition hexdigest_wf :: "(string \<Rightarrow> string) \<Rightarrow> bool" where
  "hexdigest_wf H = (\<forall>s. \<forall>c \<in> set (H s). c \<in> set ''0123456789abcdef'')"

definition EmailStr_wf :: "string \<Rightarrow> bool" where
  "EmailStr_wf e = (e \<noteq> [] \<and> (\<forall>c \<in> set e. \<not> isspace c))"

subsection \<open>A concrete environment and store\<close>

text \<open>
  A small instance on which the handlers can be run: a two-digit checksum stands for
  the digest, an id is written as a run of the letter a, every ten-character string is
  a date. The store holds a core user, an employee, two tasks and a finance record.
\<close>

definition hex_digit :: "nat \<Rightarrow> char" where
  "hex_digit n = ''0123456789abcdef'' ! (n mod 16)"

definition checksum_hex :: "string \<Rightarrow> string" where
  "checksum_hex s =
     (let n = sum_list (map (\<lambda>c. of_char c :: nat) s) in [hex_digit (n div 16), hex_digit n])"

definition example_env :: env where
  "example_env =
     \<lparr>SECRET = ''change-me-secret'',
      sha256_hexdigest = checksum_hex,
      ObjectId = (\<lambda>s. if s = [] then None
                       else if s = replicate (length s) (CHR ''a'') then Some (length s)
                       else None),
      oid_str = (\<lambda>n. replicate n (CHR ''a'')),
      fromisoformat_date = (\<lambda>s. if length s = 10 then Some 7 else None)\<rparr>"

definition example_store :: store where
  "example_store =
     \<lparr>user = [(1, \<lparr>u_name = ''Ann'', u_email = ''ann@x.io'', u_role = Core,
                    u_password_hash = checksum_hex ''pw-ann'', u_is_active = True\<rparr>),
              (2, \<lparr>u_name = ''Bob'', u_email = ''bob@x.io'', u_role = Employee,
                    u_password_hash = checksum_hex ''pw-bob'', u_is_active = True\<rparr>)],
      task = [(1, \<lparr>t_title = ''t1'', t_description = None, t_assignee_email = ''bob@x.io'',
                    t_status = Pending, t_due_date = None, t_updated_at = None\<rparr>),
              (2, \<lparr>t_title = ''t2'', t_description = None, t_assignee_email = ''cy@x.io'',
                    t_status = Pending, t_due_date = Some ''2025-02-01'', t_updated_at = None\<rparr>)],
      report = [], salarypayment = [],
      financerecord = [(1, \<lparr>f_kind = Revenue, f_amount = 10, f_category = ''Sales'',
                            f_description = None, f_reference = None\<rparr>)]\<rparr>"

definition ann_header :: string where
  "ann_header = ''Bearer '' @ make_token example_env ''ann@x.io'' (checksum_hex ''pw-ann'')"

definition bob_header :: string where
  "bob_header = ''Bearer '' @ make_token example_env ''bob@x.io'' (checksum_hex ''pw-bob'')"

section \<open>Properties\<close>

subsection \<open>Strings and tokens\<close>

lemma hex_not_space: "c \<in> set ''0123456789abcdef'' \<Longrightarrow> \<not> isspace c"
  by (auto simp: isspace_def)

lemma hex_not_colon: "c \<in> set ''0123456789abcdef'' \<Longrightarrow> c \<noteq> CHR '':''"
  by auto

lemma colon_not_space: "\<not> isspace (CHR '':'')"
  by (simp add: isspace_def)

lemma strip_noop:
  assumes "s \<noteq> []" "\<not> isspace (hd s)" "\<not> isspace (last s)"
  shows "strip s = s"
proof -
  from assms(1,2) have a: "dropWhile isspace s = s"
    by (cases s) simp_all
  from assms(1,3) have b: "dropWhile isspace (rev s) = rev s"
    by (cases "rev s") (simp_all add: last_rev [symmetric] hd_rev)
  show ?thesis by (simp add: strip_def a b)
qed

lemma split1_at_sep:
  assumes "sep \<notin> set h"
  shows "split1 sep (h @ sep # rest) = [h, rest]"
proof -
  from assms have "\<And>x. x \<in> set h \<Longrightarrow> x \<noteq> sep" by auto
  then have d: "dropWhile (\<lambda>c. c \<noteq> sep) (h @ sep # rest) = sep # rest"
    and t: "takeWhile (\<lambda>c. c \<noteq> sep) (h @ sep # rest) = h"
    by simp_all
  show ?thesis by (simp add: split1_def d t)
qed

lemma split1_first_at_sep:
  assumes "sep \<notin> set h"
  shows "split1_first sep (h @ sep # rest) = h"
proof -
  from assms have "\<And>x. x \<in> set h \<Longrightarrow> x \<noteq> sep" by auto
  then show ?thesis by (simp add: split1_first_def)
qed

lemma lower_Bearer: "lower (''Bearer '' @ t) = ''bearer '' @ lower t"
proof -
  have "map lower_char ''Bearer '' = ''bearer ''" by code_simp
  then show ?thesis by (simp add: lower_def)
qed

lemma split1_Bearer: "split1 CHR '' '' (''Bearer '' @ t) = [''Bearer'', t]"
  using split1_at_sep [of "CHR '' ''" "''Bearer''" t] by simp

lemma token_strip:
  assumes hex: "hexdigest_wf H" and wf: "EmailStr_wf e"
  shows "strip (H r @ CHR '':'' # e) = H r @ CHR '':'' # e"
proof (rule strip_noop)
  show "H r @ CHR '':'' # e \<noteq> []" by simp
  show "\<not> isspace (hd (H r @ CHR '':'' # e))"
  proof (cases "H r")
    case Nil
    then show ?thesis by (simp add: colon_not_space)
  next
    case (Cons c cs)
    with hex have "c \<in> set ''0123456789abcdef''"
      unfolding hexdigest_wf_def by (metis list.set_intros(1))
    with Cons show ?thesis using hex_not_space by simp
  qed
  from wf show "\<not> isspace (last (H r @ CHR '':'' # e))"
    by (simp add: EmailStr_wf_def)
qed

lemma digest_no_colon:
  assumes "hexdigest_wf H"
  shows "CHR '':'' \<notin> set (H r)"
  using assms hex_not_colon unfolding hexdigest_wf_def by blast

text \<open>What verification does with a token issued for email e under password hash h.\<close>

lemma get_current_user_make_token:
  assumes hex: "hexdigest_wf (sha256_hexdigest E)" and wf: "EmailStr_wf e"
  shows "get_current_user E st (Some (''Bearer '' @ make_token E e h)) =
     (case find_one (user st) (\<lambda>u. u_email u = e \<and> u_is_active u = True) of
        None \<Rightarrow> Inl (HTTPException 401 ''User not found or inactive'')
      | Some usr \<Rightarrow>
          if sha256_hexdigest E (e @ '':'' @ h @ '':'' @ SECRET E)
               \<noteq> sha256_hexdigest E (e @ '':'' @ u_password_hash (snd usr) @ '':'' @ SECRET E)
          then Inl (HTTPException 401 ''Invalid token signature'')
          else Inr \<lparr>au_email = e, au_role = u_role (snd usr), au_name = u_name (snd usr)\<rparr>)"
proof -
  let ?H = "sha256_hexdigest E"
  let ?r = "e @ '':'' @ h @ '':'' @ SECRET E"
  have tok: "make_token E e h = ?H ?r @ CHR '':'' # e"
    by (simp add: make_token_def)
  have nc: "\<And>r. CHR '':'' \<notin> set (?H r)" using digest_no_colon [OF hex] .
  have st: "strip (make_token E e h) = make_token E e h"
    unfolding tok using token_strip [OF hex wf] .
  have pt: "parse_token (make_token E e h) = Inr (Some e)"
    unfolding tok by (simp add: parse_token_def split1_at_sep [OF nc])
  have fst_tok: "split1_first CHR '':'' (make_token E e h) = ?H ?r"
    unfolding tok by (rule split1_first_at_sep [OF nc])
  have ne: "e \<noteq> []" using wf by (simp add: EmailStr_wf_def)
  have exp: "\<And>h'. split1_first CHR '':'' (make_token E e h') = ?H (e @ '':'' @ h' @ '':'' @ SECRET E)"
    by (simp add: make_token_def split1_first_at_sep [OF nc])
  define a where "a = ''Bearer '' @ make_token E e h"
  have h1: "a \<noteq> []" by (simp add: a_def)
  have h2: "startswith (lower a) ''bearer ''"
    unfolding a_def lower_Bearer by (simp add: startswith_def)
  have h3: "split1 CHR '' '' a = [''Bearer'', make_token E e h]"
    unfolding a_def by (rule split1_Bearer)
  have "get_current_user E st (Some a) =
     (case find_one (user st) (\<lambda>u. u_email u = e \<and> u_is_active u = True) of
        None \<Rightarrow> Inl (HTTPException 401 ''User not found or inactive'')
      | Some usr \<Rightarrow>
          if ?H ?r \<noteq> ?H (e @ '':'' @ u_password_hash (snd usr) @ '':'' @ SECRET E)
          then Inl (HTTPException 401 ''Invalid token signature'')
          else Inr \<lparr>au_email = e, au_role = u_role (snd usr), au_name = u_name (snd usr)\<rparr>)"
  proof (cases "find_one (user st) (\<lambda>u. u_email u = e \<and> u_is_active u = True)")
    case None
    then show ?thesis
      by (simp add: get_current_user_def h1 h2 h3 st pt ne)
  next
    case (Some usr)
    then have "u_email (snd usr) = e"
      by (auto simp: find_one_def find_Some_iff)
    with Some show ?thesis
      by (simp add: get_current_user_def h1 h2 h3 st pt ne fst_tok exp)
  qed
  then show ?thesis by (simp only: a_def)
qed

lemma hex_digit_hex: "hex_digit n \<in> set ''0123456789abcdef''"
proof -
  have "n mod 16 < length ''0123456789abcdef''" by simp
  then show ?thesis unfolding hex_digit_def by (rule nth_mem)
qed

lemma example_env_hex: "hexdigest_wf (sha256_hexdigest example_env)"
proof (unfold hexdigest_wf_def, intro allI ballI)
  fix s c
  assume "c \<in> set (sha256_hexdigest example_env s)"
  then obtain n where "c = hex_digit n"
    by (auto simp: example_env_def checksum_hex_def Let_def)
  then show "c \<in> set ''0123456789abcdef''"
    by (simp only: hex_digit_hex)
qed

lemma ann_authenticated:
  "get_current_user example_env example_store (Some ann_header) =
     Inr \<lparr>au_email = ''ann@x.io'', au_role = Core, au_name = ''Ann''\<rparr>"
  by code_simp

lemma bob_authenticated:
  "get_current_user example_env example_store (Some bob_header) =
     Inr \<lparr>au_email = ''bob@x.io'', au_role = Employee, au_name = ''Bob''\<rparr>"
  by code_simp

lemma Depends_run:
  "get_current_user E st authorization = Inr current \<Longrightarrow>
     Depends_get_current_user E st authorization handler = handler current"
  by (simp add: Depends_get_current_user_def)

lemma Depends_store:
  "(\<And>current. snd (handler current) = st \<or> P (snd (handler current))) \<Longrightarrow>
     snd (Depends_get_current_user E st authorization handler) = st
       \<or> P (snd (Depends_get_current_user E st authorization handler))"
  by (simp add: Depends_get_current_user_def split: sum.splits)

subsection \<open>Login and token verification\<close>

text \<open>
  C6. For a user the store returns as the active user of an email, and the password
  whose hash is on file, \<^verbatim>\<open>POST /auth/login\<close> succeeds and returns the token
  \<open>make_token\<close> builds; sent back as \<^verbatim>\<open>Bearer <token>\<close>, \<open>get_current_user\<close> accepts it
  and the identity it yields carries exactly that email (and the user's role and name).
\<close>

theorem login_token_roundtrip:
  assumes "hexdigest_wf (sha256_hexdigest E)" and "EmailStr_wf email"
    and "find_one (user st) (\<lambda>u. u_email u = email \<and> u_is_active u = True) = Some usr"
    and "u_password_hash (snd usr) = hash_password E password"
  shows "login E st \<lparr>lr_email = email, lr_password = password\<rparr> =
           Inr \<lparr>tr_token = make_token E email (hash_password E password),
                 tr_user = \<lparr>au_email = email, au_role = u_role (snd usr),
                            au_name = u_name (snd usr)\<rparr>\<rparr>
         \<and> get_current_user E st
             (Some (''Bearer '' @ make_token E email (hash_password E password))) =
           Inr \<lparr>au_email = email, au_role = u_role (snd usr), au_name = u_name (snd usr)\<rparr>"
proof -
  from assms(3) have em: "u_email (snd usr) = email"
    by (auto simp: find_one_def find_Some_iff)
  have l: "login E st \<lparr>lr_email = email, lr_password = password\<rparr> =
           Inr \<lparr>tr_token = make_token E email (hash_password E password),
                 tr_user = \<lparr>au_email = email, au_role = u_role (snd usr),
                            au_name = u_name (snd usr)\<rparr>\<rparr>"
    using assms(3,4) em by (simp add: login_def)
  have v: "get_current_user E st
             (Some (''Bearer '' @ make_token E email (hash_password E password))) =
           Inr \<lparr>au_email = email, au_role = u_role (snd usr), au_name = u_name (snd usr)\<rparr>"
    unfolding get_current_user_make_token [OF assms(1,2)] using assms(3,4) by simp
  from l v show ?thesis by simp
qed

theorem login_token_roundtrip_witness:
  "login example_env example_store \<lparr>lr_email = ''bob@x.io'', lr_password = ''pw-bob''\<rparr> =
     Inr \<lparr>tr_token = make_token example_env ''bob@x.io'' (hash_password example_env ''pw-bob''),
           tr_user = \<lparr>au_email = ''bob@x.io'', au_role = Employee, au_name = ''Bob''\<rparr>\<rparr>
   \<and> get_current_user example_env example_store
       (Some (''Bearer '' @ make_token example_env ''bob@x.io'' (hash_password example_env ''pw-bob''))) =
     Inr \<lparr>au_email = ''bob@x.io'', au_role = Employee, au_name = ''Bob''\<rparr>"
proof -
  let ?usr = "(2::nat, \<lparr>u_name = ''Bob'', u_email = ''bob@x.io'', u_role = Employee,
                    u_password_hash = checksum_hex ''pw-bob'', u_is_active = True\<rparr>)"
  have h2: "EmailStr_wf ''bob@x.io''" by code_simp
  have h3: "find_one (user example_store) (\<lambda>u. u_email u = ''bob@x.io'' \<and> u_is_active u = True)
              = Some ?usr"
    by code_simp
  have h4: "u_password_hash (snd ?usr) = hash_password example_env ''pw-bob''"
    by (simp add: hash_password_def example_env_def)
  show ?thesis
    using login_token_roundtrip [OF example_env_hex h2 h3 h4] by simp
qed

text \<open>
  C7. A token issued while the hash on file was \<open>h\<close> is rejected with 401 (invalid
  signature) once the hash on file is \<open>h'\<close> with \<open>h' \<noteq> h\<close>, for a digest that does not
  collide on the two strings that are hashed.
\<close>

theorem password_change_invalidates_token:
  assumes "hexdigest_wf (sha256_hexdigest E)" and "EmailStr_wf email"
    and "find_one (user st) (\<lambda>u. u_email u = email \<and> u_is_active u = True) = Some usr"
    and "u_password_hash (snd usr) = h'" and "h' \<noteq> h"
    and "inj_on (sha256_hexdigest E)
           {email @ '':'' @ h @ '':'' @ SECRET E, email @ '':'' @ h' @ '':'' @ SECRET E}"
  shows "get_current_user E st (Some (''Bearer '' @ make_token E email h)) =
           Inl (HTTPException 401 ''Invalid token signature'')"
proof -
  from assms(5) have "email @ '':'' @ h @ '':'' @ SECRET E \<noteq> email @ '':'' @ h' @ '':'' @ SECRET E"
    by simp
  with assms(6) have "sha256_hexdigest E (email @ '':'' @ h @ '':'' @ SECRET E)
      \<noteq> sha256_hexdigest E (email @ '':'' @ h' @ '':'' @ SECRET E)"
    by (auto simp: inj_on_def)
  with assms(3,4) show ?thesis
    unfolding get_current_user_make_token [OF assms(1,2)] by simp
qed

theorem password_change_invalidates_token_witness:
  "get_current_user example_env example_store
     (Some (''Bearer '' @ make_token example_env ''bob@x.io'' (checksum_hex ''old-pw''))) =
   Inl (HTTPException 401 ''Invalid token signature'')"
proof -
  let ?usr = "(2::nat, \<lparr>u_name = ''Bob'', u_email = ''bob@x.io'', u_role = Employee,
                    u_password_hash = checksum_hex ''pw-bob'', u_is_active = True\<rparr>)"
  have h2: "EmailStr_wf ''bob@x.io''" by code_simp
  have h3: "find_one (user example_store) (\<lambda>u. u_email u = ''bob@x.io'' \<and> u_is_active u = True)
              = Some ?usr"
    by code_simp
  have h4: "u_password_hash (snd ?usr) = checksum_hex ''pw-bob''" by simp
  have h5: "checksum_hex ''pw-bob'' \<noteq> checksum_hex ''old-pw''" by code_simp
  have h6a: "sha256_hexdigest example_env
                 (''bob@x.io'' @ '':'' @ checksum_hex ''old-pw'' @ '':'' @ SECRET example_env)
           \<noteq> sha256_hexdigest example_env
                 (''bob@x.io'' @ '':'' @ checksum_hex ''pw-bob'' @ '':'' @ SECRET example_env)"
    by code_simp
  have h6: "inj_on (sha256_hexdigest example_env)
           {''bob@x.io'' @ '':'' @ checksum_hex ''old-pw'' @ '':'' @ SECRET example_env,
            ''bob@x.io'' @ '':'' @ checksum_hex ''pw-bob'' @ '':'' @ SECRET example_env}"
    using h6a by (auto simp: inj_on_def)
  show ?thesis
    using password_change_invalidates_token [OF example_env_hex h2 h3 h4 h5 h6] .
qed

subsection \<open>Registration\<close>

text \<open>
  The handler itself creates the user when it is handed a core user, and a store that
  holds a user makes the route answer 401 whatever header is sent: the dependency of the
  route never supplies the caller.
\<close>

lemma register_user_core_creates:
  "register_user example_env example_store (RegisterRequest_init ''Cy'' ''cy@x.io'' ''pw-cy'' None)
     (Some \<lparr>au_email = ''ann@x.io'', au_role = Core, au_name = ''Ann''\<rparr>) =
   (Inr \<lparr>au_email = ''cy@x.io'', au_role = Employee, au_name = ''Cy''\<rparr>,
    example_store\<lparr>user := user example_store @
       [(3, \<lparr>u_name = ''Cy'', u_email = ''cy@x.io'', u_role = Employee,
             u_password_hash = checksum_hex ''pw-cy'', u_is_active = True\<rparr>)]\<rparr>)"
  by code_simp

lemma register_nonempty_store:
  "user st \<noteq> [] \<Longrightarrow>
     POST_auth_register E st authorization payload =
       (Inl (HTTPException 401 ''Authentication required''), st)"
  by (cases "user st")
     (simp_all add: POST_auth_register_def register_user_def register_user_current_def
        count_documents_def)

text \<open>
  C1. The claim asks that, once a user exists, \<^verbatim>\<open>POST /auth/register\<close> creates the user
  for a caller authenticated as core. On the example store the header of the core user
  Ann passes \<open>get_current_user\<close>, the email to register is fresh, and the route answers
  401 \<^verbatim>\<open>Authentication required\<close> and leaves the store as it was.
\<close>

theorem register_by_core_rejected:
  "get_current_user example_env example_store (Some ann_header) =
     Inr \<lparr>au_email = ''ann@x.io'', au_role = Core, au_name = ''Ann''\<rparr>
   \<and> find_one (user example_store) (\<lambda>u. u_email u = ''cy@x.io'') = None
   \<and> POST_auth_register example_env example_store (Some ann_header)
       (RegisterRequest_init ''Cy'' ''cy@x.io'' ''pw-cy'' None) =
     (Inl (HTTPException 401 ''Authentication required''), example_store)"
  by code_simp

text \<open>
  C2. A \<^verbatim>\<open>POST /auth/register\<close> succeeds exactly when the user collection is empty
  (for every Authorization header, in particular for none), and on the empty collection
  the response and the stored document carry the role of the payload, whatever it is.
\<close>

theorem register_without_token_iff_empty:
  "(\<not> isl (fst (POST_auth_register E st authorization payload))) = (user st = [])
   \<and> (user st = [] \<longrightarrow>
        POST_auth_register E st authorization payload =
          (Inr \<lparr>au_email = rr_email payload, au_role = rr_role payload,
                 au_name = rr_name payload\<rparr>,
           st\<lparr>user := [(new_oid (user st), \<lparr>u_name = rr_name payload, u_email = rr_email payload,
                                     u_role = rr_role payload,
                                     u_password_hash = hash_password E (rr_password payload),
                                     u_is_active = True\<rparr>)]\<rparr>))"
  by (cases "user st")
     (simp_all add: POST_auth_register_def register_user_def register_user_current_def
        count_documents_def find_one_def create_document_def Let_def)

theorem register_without_token_iff_empty_witness:
  "(\<not> isl (fst (POST_auth_register example_env example_store None
              (RegisterRequest_init ''Cy'' ''cy@x.io'' ''pw-cy'' (Some Core)))))
     = (user example_store = [])
   \<and> POST_auth_register example_env (example_store\<lparr>user := []\<rparr>) None
       (RegisterRequest_init ''Cy'' ''cy@x.io'' ''pw-cy'' (Some Core)) =
     (Inr \<lparr>au_email = ''cy@x.io'', au_role = Core, au_name = ''Cy''\<rparr>,
      example_store\<lparr>user := [(1, \<lparr>u_name = ''Cy'', u_email = ''cy@x.io'', u_role = Core,
                                   u_password_hash = checksum_hex ''pw-cy'',
                                   u_is_active = True\<rparr>)]\<rparr>)"
proof -
  let ?p = "RegisterRequest_init ''Cy'' ''cy@x.io'' ''pw-cy'' (Some Core)"
  have a: "(\<not> isl (fst (POST_auth_register example_env example_store None ?p)))
     = (user example_store = [])"
    by (rule conjunct1 [OF register_without_token_iff_empty])
  have e: "user (example_store\<lparr>user := []\<rparr>) = []" by simp
  have b: "POST_auth_register example_env (example_store\<lparr>user := []\<rparr>) None ?p =
     (Inr \<lparr>au_email = ''cy@x.io'', au_role = Core, au_name = ''Cy''\<rparr>,
      example_store\<lparr>user := [(1, \<lparr>u_name = ''Cy'', u_email = ''cy@x.io'', u_role = Core,
                                   u_password_hash = checksum_hex ''pw-cy'',
                                   u_is_active = True\<rparr>)]\<rparr>)"
    using conjunct2 [OF register_without_token_iff_empty, rule_format, OF e,
        of example_env None ?p]
    by (simp add: RegisterRequest_init_def new_oid_def hash_password_def example_env_def)
  from a b show ?thesis by simp
qed

subsection \<open>Reports\<close>

text \<open>
  Where \<^verbatim>\<open>main.py\<close> rejects an input on purpose it raises an \<^verbatim>\<open>HTTPException\<close> with
  status 400: a task id that \<^verbatim>\<open>ObjectId\<close> refuses, and an email that is already
  registered.
\<close>

lemma update_task_malformed_id:
  "ObjectId E task_id = None \<Longrightarrow>
     update_task E st utcnow task_id payload current =
       (Inl (HTTPException 400 ''Invalid task id''), st)"
  by (simp add: update_task_def)

lemma register_user_duplicate_email:
  assumes "au_role c = Core"
    and "find_one (user st) (\<lambda>u. u_email u = rr_email payload) = Some d"
  shows "register_user E st payload (Some c) =
           (Inl (HTTPException 400 ''Email already registered''), st)"
  using assms by (simp add: register_user_def Let_def)

text \<open>
  A field constraint of a schema gets no such treatment. \<^verbatim>\<open>CreateReportRequest\<close> and
  \<^verbatim>\<open>CreateSalaryRequest\<close> carry no bound, the bound is checked by the schema constructor
  inside the handler, and the exception leaves the handler uncaught: no record is
  created, and the status is 500.
\<close>

lemma create_report_hours_out_of_range:
  assumes "get_current_user E st authorization = Inr current"
    and "au_role current = Employee"
    and "cr_hours_worked payload < 0 \<or> 24 < cr_hours_worked payload"
  shows "POST_reports E st authorization payload =
           (Inl (if fromisoformat_date E (cr_date payload) = None then ValueError
                 else ValidationError), st)
         \<and> response_status (fst (POST_reports E st authorization payload)) = 500"
proof -
  have "POST_reports E st authorization payload = create_report E st payload current"
    unfolding POST_reports_def by (rule Depends_run [OF assms(1)])
  also have "\<dots> = (Inl (if fromisoformat_date E (cr_date payload) = None then ValueError
                 else ValidationError), st)"
    using assms(2,3) by (auto simp: create_report_def Report_init_def split: option.splits)
  finally show ?thesis by simp
qed

lemma create_salary_negative_amount:
  assumes "get_current_user E st authorization = Inr current"
    and "au_role current = Core"
    and "cs_amount payload < 0"
  shows "POST_salary E st authorization payload = (Inl ValidationError, st)
         \<and> response_status (fst (POST_salary E st authorization payload)) = 500"
proof -
  have "POST_salary E st authorization payload = create_salary E st payload current"
    unfolding POST_salary_def by (rule Depends_run [OF assms(1)])
  also have "\<dots> = (Inl ValidationError, st)"
    using assms(2,3) by (simp add: create_salary_def SalaryPayment_init_def)
  finally show ?thesis by simp
qed

text \<open>
  C3. The claim asks that a field-constraint violation in a create request, and in
  particular an employee's \<^verbatim>\<open>POST /reports\<close> with \<^verbatim>\<open>hours_worked\<close> outside [0, 24], is
  answered with status 400 and creates no record. For the employee Bob on the example
  store, with a well-formed date and \<^verbatim>\<open>hours_worked = 25\<close>, no record is created, but the
  request ends in pydantic's \<^verbatim>\<open>ValidationError\<close>, raised by the \<^verbatim>\<open>Report\<close> constructor and
  caught by nothing: the status is 500, not 400.
\<close>

theorem report_hours_out_of_range_not_400:
  "POST_reports example_env example_store (Some bob_header)
          \<lparr>cr_date = ''2025-01-01'', cr_summary = ''audit'', cr_hours_worked = 25\<rparr>
     = (Inl ValidationError, example_store)
   \<and> response_status (fst (POST_reports example_env example_store (Some bob_header)
          \<lparr>cr_date = ''2025-01-01'', cr_summary = ''audit'', cr_hours_worked = 25\<rparr>))
     = 500"
proof -
  have "POST_reports example_env example_store (Some bob_header)
          \<lparr>cr_date = ''2025-01-01'', cr_summary = ''audit'', cr_hours_worked = 25\<rparr>
        = create_report example_env example_store
          \<lparr>cr_date = ''2025-01-01'', cr_summary = ''audit'', cr_hours_worked = 25\<rparr>
          \<lparr>au_email = ''bob@x.io'', au_role = Employee, au_name = ''Bob''\<rparr>"
    unfolding POST_reports_def by (rule Depends_run [OF bob_authenticated])
  also have "\<dots> = (Inl ValidationError, example_store)"
    by (simp add: create_report_def example_env_def Report_init_def)
  finally show ?thesis by simp
qed

subsection \<open>Finance\<close>

text \<open>
  C4. For a request authenticated as an employee, \<^verbatim>\<open>GET /finance\<close> and \<^verbatim>\<open>POST /finance\<close>
  both raise the 403 \<^verbatim>\<open>HTTPException\<close>: no record is returned and the store is unchanged.
\<close>

theorem finance_forbidden_for_employee:
  assumes "get_current_user E st authorization = Inr current"
    and "au_role current = Employee"
  shows "GET_finance E st authorization =
           (Inl (HTTPException 403 ''Only core can view finance records''), st)
         \<and> POST_finance E st authorization payload =
           (Inl (HTTPException 403 ''Only core can add finance records''), st)"
  using assms
  by (simp add: GET_finance_def POST_finance_def Depends_run list_finance_def create_finance_def)

theorem finance_forbidden_for_employee_witness:
  "GET_finance example_env example_store (Some bob_header) =
     (Inl (HTTPException 403 ''Only core can view finance records''), example_store)
   \<and> POST_finance example_env example_store (Some bob_header)
       \<lparr>cf_kind = Expense, cf_amount = 12, cf_category = ''Ops'', cf_description = None,
        cf_reference = None\<rparr> =
     (Inl (HTTPException 403 ''Only core can add finance records''), example_store)"
proof -
  have h2: "au_role \<lparr>au_email = ''bob@x.io'', au_role = Employee, au_name = ''Bob''\<rparr> = Employee"
    by simp
  show ?thesis
    using finance_forbidden_for_employee [OF bob_authenticated h2] by simp
qed

subsection \<open>Tasks\<close>

text \<open>
  C5. For a request authenticated as an employee, and every value of the \<^verbatim>\<open>assignee\<close>
  query parameter, \<^verbatim>\<open>GET /tasks\<close> returns the result of \<open>list_tasks\<close>, and every task in
  it has the employee's own email as \<^verbatim>\<open>assignee_email\<close>.
\<close>

theorem employee_lists_own_tasks_only:
  assumes "get_current_user E st authorization = Inr current"
    and "au_role current = Employee"
  shows "GET_tasks E st authorization assignee = (Inr (list_tasks E st current assignee), st)
         \<and> (\<forall>d \<in> set (list_tasks E st current assignee).
               case d of None \<Rightarrow> False
               | Some row \<Rightarrow> t_assignee_email (snd row) = au_email current)"
  using assms
  by (auto simp: GET_tasks_def Depends_run list_tasks_def get_documents_def task_matches_def
        serialize_doc_def)

theorem employee_lists_own_tasks_only_witness:
  "GET_tasks example_env example_store (Some bob_header) (Some ''cy@x.io'') =
     (Inr [Some (''a'', \<lparr>t_title = ''t1'', t_description = None,
                          t_assignee_email = ''bob@x.io'', t_status = Pending,
                          t_due_date = None, t_updated_at = None\<rparr>)], example_store)
   \<and> list_all (\<lambda>d. case d of None \<Rightarrow> False
                   | Some row \<Rightarrow> t_assignee_email (snd row) = ''bob@x.io'')
       (list_tasks example_env example_store
          \<lparr>au_email = ''bob@x.io'', au_role = Employee, au_name = ''Bob''\<rparr> (Some ''cy@x.io''))"
proof -
  let ?bob = "\<lparr>au_email = ''bob@x.io'', au_role = Employee, au_name = ''Bob''\<rparr>"
  have h2: "au_role ?bob = Employee" by simp
  have l: "list_tasks example_env example_store ?bob (Some ''cy@x.io'') =
     [Some (''a'', \<lparr>t_title = ''t1'', t_description = None,
                          t_assignee_email = ''bob@x.io'', t_status = Pending,
                          t_due_date = None, t_updated_at = None\<rparr>)]"
    by code_simp
  show ?thesis
    using employee_lists_own_tasks_only [OF bob_authenticated h2, of "Some ''cy@x.io''"]
    by (simp add: l list_all_iff)
qed

text \<open>
  C8. For an existing task and a caller who is core or the task's assignee,
  \<^verbatim>\<open>PATCH /tasks/{id}\<close> with no field set returns the stored task, serialised, and the
  store after the request is the store before it (so \<^verbatim>\<open>updated_at\<close> is unchanged too).
\<close>

theorem empty_patch_returns_task_unchanged:
  assumes "get_current_user E st authorization = Inr current"
    and "ObjectId E task_id = Some i"
    and "find_one_by_id (task st) i = Some doc"
    and "au_role current = Core \<or> t_assignee_email (snd doc) = au_email current"
  shows "PATCH_tasks E st utcnow authorization task_id
           \<lparr>ut_status = None, ut_title = None, ut_description = None\<rparr> =
         (Inr (serialize_doc E (Some doc)), st)"
proof -
  have "PATCH_tasks E st utcnow authorization task_id
           \<lparr>ut_status = None, ut_title = None, ut_description = None\<rparr> =
        update_task E st utcnow task_id
           \<lparr>ut_status = None, ut_title = None, ut_description = None\<rparr> current"
    unfolding PATCH_tasks_def by (rule Depends_run [OF assms(1)])
  also have "\<dots> = (Inr (serialize_doc E (Some doc)), st)"
    using assms(2,3,4) by (auto simp: update_task_def)
  finally show ?thesis .
qed

theorem empty_patch_returns_task_unchanged_witness:
  "PATCH_tasks example_env example_store 77 (Some bob_header) ''a''
     \<lparr>ut_status = None, ut_title = None, ut_description = None\<rparr> =
   (Inr (Some (''a'', \<lparr>t_title = ''t1'', t_description = None,
                        t_assignee_email = ''bob@x.io'', t_status = Pending,
                        t_due_date = None, t_updated_at = None\<rparr>)), example_store)"
proof -
  let ?doc = "(1::nat, \<lparr>t_title = ''t1'', t_description = None,
                        t_assignee_email = ''bob@x.io'', t_status = Pending,
                        t_due_date = None, t_updated_at = None\<rparr>)"
  let ?bob = "\<lparr>au_email = ''bob@x.io'', au_role = Employee, au_name = ''Bob''\<rparr>"
  have h2: "ObjectId example_env ''a'' = Some 1" by code_simp
  have h3: "find_one_by_id (task example_store) 1 = Some ?doc" by code_simp
  have h4: "au_role ?bob = Core \<or> t_assignee_email (snd ?doc) = au_email ?bob" by simp
  show ?thesis
    using empty_patch_returns_task_unchanged [OF bob_authenticated h2 h3 h4, of 77]
    by (simp add: serialize_doc_def example_env_def)
qed

lemma update_one_frame:
  assumes "\<And>x. f (upd x) = f x"
  shows "map (\<lambda>d. (fst d, f (snd d))) (update_one c i upd) = map (\<lambda>d. (fst d, f (snd d))) c"
  using assms by (induction c) simp_all

lemma update_task_frame:
  assumes "\<And>x. f (set_updates payload utcnow x) = f x"
  shows "map (\<lambda>d. (fst d, f (snd d))) (task (snd (update_task E st utcnow task_id payload current)))
           = map (\<lambda>d. (fst d, f (snd d))) (task st)"
  using update_one_frame [of f "set_updates payload utcnow", OF assms]
  by (simp add: update_task_def Let_def split: option.splits)

lemma update_task_other_collections:
  "(snd (update_task E st utcnow task_id payload current))\<lparr>task := task st\<rparr> = st"
  by (simp add: update_task_def Let_def split: option.splits)

lemma Depends_snd:
  "snd (Depends_get_current_user E st authorization handler) =
     (case get_current_user E st authorization of Inl e \<Rightarrow> st | Inr c \<Rightarrow> snd (handler c))"
  by (simp add: Depends_get_current_user_def split: sum.splits)

text \<open>
  C9. For every \<^verbatim>\<open>PATCH /tasks/{id}\<close> request, whoever sends it and whatever the body
  holds: every task keeps its id, \<^verbatim>\<open>assignee_email\<close> and \<^verbatim>\<open>due_date\<close>; the tasks before
  and after agree on everything but \<^verbatim>\<open>status\<close>, \<^verbatim>\<open>title\<close>, \<^verbatim>\<open>description\<close> and
  \<^verbatim>\<open>updated_at\<close>; and no other collection changes.
\<close>

theorem patch_keeps_assignee_and_due_date:
  "map (\<lambda>d. (fst d, t_assignee_email (snd d), t_due_date (snd d)))
       (task (snd (PATCH_tasks E st utcnow authorization task_id payload)))
     = map (\<lambda>d. (fst d, t_assignee_email (snd d), t_due_date (snd d))) (task st)
   \<and> map (\<lambda>d. (fst d, (snd d)\<lparr>t_status := Pending, t_title := [], t_description := None,
                              t_updated_at := None\<rparr>))
       (task (snd (PATCH_tasks E st utcnow authorization task_id payload)))
     = map (\<lambda>d. (fst d, (snd d)\<lparr>t_status := Pending, t_title := [], t_description := None,
                              t_updated_at := None\<rparr>)) (task st)
   \<and> (snd (PATCH_tasks E st utcnow authorization task_id payload))\<lparr>task := task st\<rparr> = st"
proof -
  let ?f = "\<lambda>t. (t_assignee_email t, t_due_date t)"
  let ?g = "\<lambda>t. t\<lparr>t_status := Pending, t_title := [], t_description := None,
                              t_updated_at := None\<rparr>"
  have f: "\<And>x. ?f (set_updates payload utcnow x) = ?f x" by (simp add: set_updates_def)
  have g: "\<And>x. ?g (set_updates payload utcnow x) = ?g x" by (simp add: set_updates_def)
  show ?thesis
    using update_task_frame [of ?f payload utcnow, OF f]
          update_task_frame [of ?g payload utcnow, OF g]
          update_task_other_collections
    by (simp add: PATCH_tasks_def Depends_snd split: sum.splits)
qed

theorem patch_keeps_assignee_and_due_date_witness:
  "map (\<lambda>d. (fst d, t_assignee_email (snd d), t_due_date (snd d)))
       (task (snd (PATCH_tasks example_env example_store 77 (Some ann_header) ''aa''
          \<lparr>ut_status = Some Done, ut_title = Some ''renamed'', ut_description = Some ''d''\<rparr>)))
     = [(1, ''bob@x.io'', None), (2, ''cy@x.io'', Some ''2025-02-01'')]
   \<and> task (snd (PATCH_tasks example_env example_store 77 (Some ann_header) ''aa''
          \<lparr>ut_status = Some Done, ut_title = Some ''renamed'', ut_description = Some ''d''\<rparr>))
     \<noteq> task example_store"
proof -
  let ?p = "\<lparr>ut_status = Some Done, ut_title = Some ''renamed'', ut_description = Some ''d''\<rparr>"
  have a: "map (\<lambda>d. (fst d, t_assignee_email (snd d), t_due_date (snd d))) (task example_store)
         = [(1, ''bob@x.io'', None), (2, ''cy@x.io'', Some ''2025-02-01'')]"
    by (simp add: example_store_def)
  have "PATCH_tasks example_env example_store 77 (Some ann_header) ''aa'' ?p =
        update_task example_env example_store 77 ''aa'' ?p
          \<lparr>au_email = ''ann@x.io'', au_role = Core, au_name = ''Ann''\<rparr>"
    unfolding PATCH_tasks_def by (rule Depends_run [OF ann_authenticated])
  then have b: "task (snd (PATCH_tasks example_env example_store 77 (Some ann_header) ''aa'' ?p))
     \<noteq> task example_store"
    by (simp add: update_task_def example_env_def example_store_def find_one_by_id_def
          set_updates_def)
  show ?thesis
    using conjunct1 [OF patch_keeps_assignee_and_due_date,
        of example_env example_store 77 "Some ann_header" "''aa''" ?p] a b
    by simp
qed

subsection \<open>Salary\<close>

lemma fold_max_ge: "a \<le> fold max xs (a::nat)"
proof (induction xs arbitrary: a)
  case Nil
  show ?case by simp
next
  case (Cons x xs)
  have "a \<le> max x a" by simp
  also have "\<dots> \<le> fold max xs (max x a)" by (rule Cons.IH)
  finally show ?case by simp
qed

lemma fold_max_upper: "x \<in> set xs \<Longrightarrow> x \<le> fold max xs (a::nat)"
proof (induction xs arbitrary: a)
  case Nil
  then show ?case by simp
next
  case (Cons y ys)
  show ?case
  proof (cases "x = y")
    case True
    have "x \<le> max y a" using True by simp
    also have "\<dots> \<le> fold max ys (max y a)" by (rule fold_max_ge)
    finally show ?thesis by simp
  next
    case False
    with Cons.prems have "x \<in> set ys" by simp
    from Cons.IH [OF this] show ?thesis by simp
  qed
qed

lemma new_oid_fresh: "d \<in> set c \<Longrightarrow> fst d \<noteq> new_oid c"
proof
  assume m: "d \<in> set c" and e: "fst d = new_oid c"
  from m have "fst d \<in> set (map fst c)" by (rule_tac imageI [of d "set c" fst, simplified set_map [symmetric]])
  from fold_max_upper [OF this, of 0] have "fst d \<le> fold max (map fst c) 0" .
  with e show False by (simp add: new_oid_def)
qed

lemma find_append_new:
  assumes "\<And>x. x \<in> set xs \<Longrightarrow> \<not> P x" and "P y"
  shows "find P (xs @ [y]) = Some y"
  using assms by (induction xs) simp_all

lemma refetch_created:
  assumes "ObjectId E (oid_str E (new_oid c)) = Some (new_oid c)"
  shows "refetch E (snd (create_document E c d)) (fst (create_document E c d))
           = Inr (Some (oid_str E (new_oid c), d))"
proof -
  have fresh: "\<And>x. x \<in> set c \<Longrightarrow> \<not> fst x = new_oid c"
    by (rule new_oid_fresh)
  have "find (\<lambda>x. fst x = new_oid c) (c @ [(new_oid c, d)]) = Some (new_oid c, d)"
    using find_append_new [of c "\<lambda>x. fst x = new_oid c" "(new_oid c, d)"] fresh
    by simp
  then show ?thesis
    using assms by (simp add: refetch_def create_document_def find_one_by_id_def serialize_doc_def)
qed

text \<open>
  C10. For a request authenticated as core whose body has no \<^verbatim>\<open>status\<close> field,
  \<^verbatim>\<open>POST /salary\<close> stores exactly one new record when the amount is not negative, with
  status \<^verbatim>\<open>paid\<close>, and stores nothing otherwise; where \<^verbatim>\<open>ObjectId\<close> reads back the
  string of the new id, the response is that record, with status \<^verbatim>\<open>paid\<close>.
\<close>

theorem salary_status_defaults_to_paid:
  assumes "get_current_user E st authorization = Inr current"
    and "au_role current = Core"
  shows "salarypayment (snd (POST_salary E st authorization
            (CreateSalaryRequest_init employee_email amount month notes None))) =
           (if 0 \<le> amount
            then salarypayment st @
                   [(new_oid (salarypayment st),
                     \<lparr>s_employee_email = employee_email, s_amount = amount, s_month = month,
                      s_notes = notes, s_status = Paid\<rparr>)]
            else salarypayment st)
         \<and> (0 \<le> amount \<and> ObjectId E (oid_str E (new_oid (salarypayment st)))
                             = Some (new_oid (salarypayment st)) \<longrightarrow>
              fst (POST_salary E st authorization
                     (CreateSalaryRequest_init employee_email amount month notes None)) =
                Inr (Some (oid_str E (new_oid (salarypayment st)),
                      \<lparr>s_employee_email = employee_email, s_amount = amount, s_month = month,
                       s_notes = notes, s_status = Paid\<rparr>)))"
proof -
  let ?p = "CreateSalaryRequest_init employee_email amount month notes None"
  let ?d = "\<lparr>s_employee_email = employee_email, s_amount = amount, s_month = month,
                      s_notes = notes, s_status = Paid\<rparr>"
  have run: "POST_salary E st authorization ?p = create_salary E st ?p current"
    unfolding POST_salary_def by (rule Depends_run [OF assms(1)])
  have stored: "salarypayment (snd (create_salary E st ?p current)) =
           (if 0 \<le> amount then salarypayment st @ [(new_oid (salarypayment st), ?d)]
            else salarypayment st)"
    using assms(2)
    by (simp add: create_salary_def CreateSalaryRequest_init_def SalaryPayment_init_def
          create_document_def Let_def)
  have resp: "fst (create_salary E st ?p current) =
                Inr (Some (oid_str E (new_oid (salarypayment st)), ?d))"
    if "0 \<le> amount" and
       "ObjectId E (oid_str E (new_oid (salarypayment st))) = Some (new_oid (salarypayment st))"
    using assms(2) that(1) refetch_created [OF that(2), of ?d]
    by (simp add: create_salary_def CreateSalaryRequest_init_def SalaryPayment_init_def Let_def)
  from stored resp show ?thesis unfolding run by simp
qed

theorem salary_status_defaults_to_paid_witness:
  "salarypayment (snd (POST_salary example_env example_store (Some ann_header)
      (CreateSalaryRequest_init ''bob@x.io'' 1500 ''2025-01'' None None))) =
     [(1, \<lparr>s_employee_email = ''bob@x.io'', s_amount = 1500, s_month = ''2025-01'',
           s_notes = None, s_status = Paid\<rparr>)]
   \<and> fst (POST_salary example_env example_store (Some ann_header)
      (CreateSalaryRequest_init ''bob@x.io'' 1500 ''2025-01'' None None)) =
     Inr (Some (''a'', \<lparr>s_employee_email = ''bob@x.io'', s_amount = 1500, s_month = ''2025-01'',
           s_notes = None, s_status = Paid\<rparr>))"
proof -
  let ?ann = "\<lparr>au_email = ''ann@x.io'', au_role = Core, au_name = ''Ann''\<rparr>"
  have h2: "au_role ?ann = Core" by simp
  have n: "new_oid (salarypayment example_store) = 1"
    by (simp add: new_oid_def example_store_def)
  have r: "ObjectId example_env (oid_str example_env 1) = Some 1"
    by (simp add: example_env_def)
  have s: "salarypayment example_store = []" by (simp add: example_store_def)
  show ?thesis
    using salary_status_defaults_to_paid [OF ann_authenticated h2,
        of "''bob@x.io''" 1500 "''2025-01''" None] n r s
    by (simp add: example_env_def)
qed

end
